theory Spec2Isabelle
  imports Main "HOL-Library.Sublist" "HOL-Library.Word"
begin

section \<open>Python values, exceptions and the world around the adapters\<close>

text \<open>
  The two adapters of \<^verbatim>\<open>bench_executor\<close> (\<^verbatim>\<open>burp.py\<close> and \<^verbatim>\<open>morphrdb.py\<close>) are
  embedded as state-passing functions over a \<open>world\<close>: the directories and files on
  disk, the process umask, the commands handed to the container and the messages handed
  to the logger. A call returns the exception it raised (\<open>Inl\<close>) or its value
  (\<open>Inr\<close>), always together with the world it left behind, since a Python exception
  does not undo the writes that happened before it.
\<close>

datatype error =
    NotImplementedError
  | ValueError
  | TypeError
  | DecoratorTimeoutError   \<comment> \<open>\<^verbatim>\<open>timeout_decorator.TimeoutError\<close>, a subclass of AssertionError\<close>
  | BuiltinTimeoutError     \<comment> \<open>the builtin \<^verbatim>\<open>TimeoutError\<close>, a subclass of OSError\<close>
  | FileExistsError
  | FileNotFoundError
  | ConfigurationError
  | LaunchError

text \<open>An element of a Python list of arguments: the code appends strings and integers.\<close>

datatype pyval = PyStr string | PyInt int

datatype level = Debug | Warning

record world =
  dirs :: "string set"
  files :: "string \<rightharpoonup> string"
  umask :: nat
  launched :: "string list"
  log :: "(level \<times> string) list"

type_synonym 'a result = "(error + 'a) \<times> world"

text \<open>
  What \<^verbatim>\<open>Container.run_and_wait_for_exit\<close> does is not part of the adapters: the time
  the call takes in seconds and what it returns or raises are given by the environment.
\<close>

record run_outcome =
  elapsed :: nat
  returns :: "error + bool"

text \<open>
  The environment of a call: the total memory \<^verbatim>\<open>psutil.virtual_memory().total\<close> reports
  (an unsigned 64-bit byte count), \<^verbatim>\<open>os.path.abspath\<close> (which depends on the working
  directory) and the behaviour of the container for a command in a world.
\<close>

record env =
  total_memory :: "64 word"
  abspath :: "string \<Rightarrow> string"
  run_and_wait_for_exit :: "string \<Rightarrow> world \<Rightarrow> run_outcome"

definition logger_debug :: "string \<Rightarrow> world \<Rightarrow> world" where
  "logger_debug msg w = w\<lparr>log := log w @ [(Debug, msg)]\<rparr>"

definition logger_warning :: "string \<Rightarrow> world \<Rightarrow> world" where
  "logger_warning msg w = w\<lparr>log := log w @ [(Warning, msg)]\<rparr>"

text \<open>
  Calling \<^verbatim>\<open>self.run_and_wait_for_exit(cmd)\<close>: the command is recorded as launched, the
  environment says how long the call took and how it ended.
\<close>

definition Container_run_and_wait_for_exit ::
  "env \<Rightarrow> string \<Rightarrow> world \<Rightarrow> nat \<times> (error + bool) \<times> world" where
  "Container_run_and_wait_for_exit e cmd w =
     (let out = run_and_wait_for_exit e cmd w
      in (elapsed out, returns out, w\<lparr>launched := launched w @ [cmd]\<rparr>))"

section \<open>Library functions the adapters call\<close>

subsection \<open>Strings\<close>

text \<open>\<^verbatim>\<open>str(n)\<close> for a non-negative integer, as an f-string prints it.\<close>

definition digit :: "nat \<Rightarrow> char" where
  "digit d = ''0123456789'' ! d"

fun str_nat :: "nat \<Rightarrow> string" where
  "str_nat n = (if n < 10 then [digit n] else str_nat (n div 10) @ [digit (n mod 10)])"

declare str_nat.simps [simp del]

text \<open>
  \<^verbatim>\<open>sep.join(items)\<close>: every item has to be a string, an integer item raises
  \<^verbatim>\<open>TypeError\<close> (sequence item: expected str instance, int found).
\<close>

fun str_join :: "string \<Rightarrow> pyval list \<Rightarrow> error + string" where
  "str_join sep [] = Inr []"
| "str_join sep [PyStr s] = Inr s"
| "str_join sep (PyStr s # x # xs) =
     (case str_join sep (x # xs) of Inl err \<Rightarrow> Inl err | Inr r \<Rightarrow> Inr (s @ sep @ r))"
| "str_join sep (PyInt i # xs) = Inl TypeError"

text \<open>
  \<^verbatim>\<open>posixpath.join(a, b)\<close> and \<^verbatim>\<open>posixpath.basename(p)\<close>: an absolute second component
  replaces the first; the base name is what follows the last slash.
\<close>

definition os_path_join :: "string \<Rightarrow> string \<Rightarrow> string" where
  "os_path_join a b =
     (if b \<noteq> [] \<and> hd b = CHR ''/'' then b
      else if a = [] \<or> last a = CHR ''/'' then a @ b
      else a @ ''/'' @ b)"

definition os_path_basename :: "string \<Rightarrow> string" where
  "os_path_basename p = rev (takeWhile (\<lambda>c. c \<noteq> CHR ''/'') (rev p))"

text \<open>
  \<^verbatim>\<open>s.replace(old, new)\<close> for a non-empty \<open>old\<close>: the occurrences are found from left
  to right and do not overlap. (With an empty \<open>old\<close> Python puts \<open>new\<close> around every
  character.)
\<close>

abbreviation LF :: char where "LF \<equiv> CHR 0x0A"
abbreviation CR :: char where "CR \<equiv> CHR 0x0D"
abbreviation TAB :: char where "TAB \<equiv> CHR 0x09"

fun str_replace_from :: "string \<Rightarrow> string \<Rightarrow> string \<Rightarrow> string" where
  "str_replace_from old new [] = []"
| "str_replace_from old new (c # cs) =
     (if prefix old (c # cs) then new @ str_replace_from old new (drop (length old - 1) cs)
      else c # str_replace_from old new cs)"

definition str_replace :: "string \<Rightarrow> string \<Rightarrow> string \<Rightarrow> string" where
  "str_replace old new s =
     (if old = [] then new @ concat (map (\<lambda>c. c # new) s) else str_replace_from old new s)"


subsection \<open>Files and directories\<close>

text \<open>
  \<^verbatim>\<open>os.makedirs(path, exist_ok=flag)\<close> creates the directory and its missing ancestors;
  a directory that is already there raises \<^verbatim>\<open>FileExistsError\<close> unless the flag is set.
  Failures of the operating system itself (a regular file in the way, missing
  permissions, a full disk) are outside this model: the other calls succeed.
\<close>

fun ancestors_from :: "string \<Rightarrow> string \<Rightarrow> string list" where
  "ancestors_from pre [] = []"
| "ancestors_from pre (c # cs) =
     (if pre = [] then [] else if c = CHR ''/'' then [pre] else [])
     @ ancestors_from (pre @ [c]) cs"

definition ancestors :: "string \<Rightarrow> string list" where
  "ancestors p = ancestors_from [] p"

definition os_makedirs :: "string \<Rightarrow> bool \<Rightarrow> world \<Rightarrow> unit result" where
  "os_makedirs p exist_ok w =
     (if p \<in> dirs w then (if exist_ok then (Inr (), w) else (Inl FileExistsError, w))
      else (Inr (), w\<lparr>dirs := dirs w \<union> set (ancestors p) \<union> {p}\<rparr>))"

definition os_umask :: "nat \<Rightarrow> world \<Rightarrow> world" where
  "os_umask new w = w\<lparr>umask := new\<rparr>"

text \<open>
  Text files, opened with the default \<^verbatim>\<open>newline=None\<close> on a POSIX system: writing
  leaves \<^verbatim>\<open>'\n'\<close> as it is (\<^verbatim>\<open>os.linesep\<close>), reading translates \<^verbatim>\<open>'\r\n'\<close> and a lone
  \<^verbatim>\<open>'\r'\<close> into \<^verbatim>\<open>'\n'\<close> (universal newlines). Opening for writing truncates the file.
\<close>

fun universal_newlines :: "string \<Rightarrow> string" where
  "universal_newlines [] = []"
| "universal_newlines [c] = [if c = CR then LF else c]"
| "universal_newlines (c # d # ds) =
     (if c = CR \<and> d = LF then LF # universal_newlines ds
      else (if c = CR then LF else c) # universal_newlines (d # ds))"

definition write_text :: "string \<Rightarrow> string \<Rightarrow> world \<Rightarrow> world" where
  "write_text p s w = w\<lparr>files := (files w)(p \<mapsto> s)\<rparr>"

definition read_text :: "string \<Rightarrow> world \<Rightarrow> error + string" where
  "read_text p w =
     (case files w p of None \<Rightarrow> Inl FileNotFoundError
      | Some raw \<Rightarrow> Inr (universal_newlines raw))"

subsection \<open>The section-based generator \<^verbatim>\<open>configparser.ConfigParser\<close>\<close>

text \<open>
  A parser created with \<^verbatim>\<open>ConfigParser()\<close> uses \<^verbatim>\<open>BasicInterpolation\<close>. Storing a value
  first runs \<^verbatim>\<open>before_set\<close>: the escaped \<^verbatim>\<open>%%\<close> and then the references matching
  \<^verbatim>\<open>%\(([^)]+)\)s\<close> are taken out of the value, and a \<^verbatim>\<open>%\<close> that is left raises
  \<^verbatim>\<open>ValueError\<close> (invalid interpolation syntax). \<open>KEYCRE_match s\<close> is the length of the
  match of that pattern at the start of \<open>s\<close>.
\<close>

definition KEYCRE_match :: "string \<Rightarrow> nat option" where
  "KEYCRE_match s =
     (case s of
        a # b # rest \<Rightarrow>
          if a = CHR ''%'' \<and> b = CHR ''('' then
            (let run = takeWhile (\<lambda>x. x \<noteq> CHR '')'') rest
             in if run = [] then None
                else if prefix '')s'' (drop (length run) rest) then Some (length run + 4)
                else None)
          else None
      | _ \<Rightarrow> None)"

fun KEYCRE_sub :: "string \<Rightarrow> string" where
  "KEYCRE_sub [] = []"
| "KEYCRE_sub (c # cs) =
     (case KEYCRE_match (c # cs) of
        Some n \<Rightarrow> KEYCRE_sub (drop (n - 1) cs)
      | None \<Rightarrow> c # KEYCRE_sub cs)"

definition before_set :: "string \<Rightarrow> error + string" where
  "before_set v =
     (let tmp_value = str_replace ''%%'' [] v;
          tmp_value = KEYCRE_sub tmp_value
      in if CHR ''%'' \<in> set tmp_value then Inl ValueError else Inr v)"

text \<open>
  A section is an ordered dictionary of options. \<^verbatim>\<open>config[section][key] = value\<close>
  validates the value and stores it, at the place of the key if the section has it and at
  the end otherwise. (The option names are lower-cased first; the names the adapter uses
  are in lower case already.) Assigning a dictionary to \<^verbatim>\<open>config[section]\<close> stores its
  items one after the other in the same way.
\<close>

type_synonym config_section = "(string \<times> string) list"

fun section_update :: "string \<Rightarrow> string \<Rightarrow> config_section \<Rightarrow> config_section" where
  "section_update k v [] = [(k, v)]"
| "section_update k v ((k', v') # kvs) =
     (if k' = k then (k, v) # kvs else (k', v') # section_update k v kvs)"

definition section_set :: "string \<Rightarrow> string \<Rightarrow> config_section \<Rightarrow> error + config_section" where
  "section_set k v sec =
     (case before_set v of Inl err \<Rightarrow> Inl err | Inr v' \<Rightarrow> Inr (section_update k v' sec))"

fun section_set_all :: "(string \<times> string) list \<Rightarrow> config_section \<Rightarrow> error + config_section" where
  "section_set_all [] sec = Inr sec"
| "section_set_all ((k, v) # kvs) sec =
     (case section_set k v sec of Inl err \<Rightarrow> Inl err | Inr sec' \<Rightarrow> section_set_all kvs sec')"

text \<open>
  \<^verbatim>\<open>config.write(f, space_around_delimiters=False)\<close> with the one section \<^verbatim>\<open>root\<close>: the
  header line, one line \<^verbatim>\<open>key=value\<close> for each option, where a line break inside a value
  is followed by a tab, and an empty line.
\<close>

definition option_line :: "string \<times> string \<Rightarrow> string" where
  "option_line kv = fst kv @ ''='' @ str_replace [LF] [LF, TAB] (snd kv) @ [LF]"

definition config_write :: "config_section \<Rightarrow> string" where
  "config_write sec = ''[root]'' @ [LF] @ concat (map option_line sec) @ [LF]"

subsection \<open>Memory\<close>

text \<open>
  \<^verbatim>\<open>int(total * (1/2))\<close> is computed in double precision. The integer is first rounded
  to a float (53 significant bits, ties to even), the product with 0.5 is exact, and
  \<^verbatim>\<open>int\<close> truncates. \<open>float_exponent n\<close> is the number of low bits the rounding drops.
\<close>

fun float_exponent :: "nat \<Rightarrow> nat" where
  "float_exponent n = (if n < 2 ^ 53 then 0 else Suc (float_exponent (n div 2)))"

declare float_exponent.simps [simp del]

definition float_of_int :: "nat \<Rightarrow> nat" where
  "float_of_int n =
     (let k = float_exponent n; q = n div 2 ^ k; r = n mod 2 ^ k
      in if 2 ^ k < 2 * r \<or> (2 * r = 2 ^ k \<and> odd q) then (q + 1) * 2 ^ k else q * 2 ^ k)"

definition max_heap :: "64 word \<Rightarrow> nat" where
  "max_heap bytes = float_of_int (unat bytes) div 2"

subsection \<open>The timeout decorator\<close>

definition TIMEOUT :: nat where
  "TIMEOUT = 6 * 3600"

text \<open>
  \<^verbatim>\<open>@timeout(seconds)\<close> of \<^verbatim>\<open>timeout_decorator\<close>: an alarm interrupts the decorated call
  once it has run for longer than \<open>seconds\<close> and raises the decorator's
  \<^verbatim>\<open>TimeoutError\<close> in it; a call that ends earlier returns or raises as it does.
\<close>

definition timeout ::
  "nat \<Rightarrow> (world \<Rightarrow> nat \<times> (error + bool) \<times> world) \<Rightarrow> world \<Rightarrow> bool result" where
  "timeout seconds f w =
     (case f w of (t, r, w') \<Rightarrow>
        if seconds < t then (Inl DecoratorTimeoutError, w') else (r, w'))"

section \<open>The BURP adapter\<close>

record container =
  image_ref :: string
  tool_name :: string
  volumes :: "string list"
  expect_failure :: bool

record BURP = container +
  burp_data_path :: string
  burp_config_path :: string
  burp_verbose :: bool

text \<open>
  \<^verbatim>\<open>BURP._execute_with_timeout\<close> without its decorator. The command string and the debug
  message both join the arguments with a blank.
\<close>

definition BURP_cmd :: "bool \<Rightarrow> nat \<Rightarrow> string \<Rightarrow> string" where
  "BURP_cmd verbose heap args =
     (let cmd = ''java -Xmx'' @ str_nat heap @ '' -Xms'' @ str_nat heap @ '' -jar burp/burp.jar'';
          cmd = (if verbose then cmd @ '' -vvvvvvvvvvvvv'' else cmd)
      in cmd @ '' '' @ args)"

definition BURP_execute_with_timeout_body ::
  "env \<Rightarrow> BURP \<Rightarrow> pyval list \<Rightarrow> world \<Rightarrow> nat \<times> (error + bool) \<times> world" where
  "BURP_execute_with_timeout_body e self arguments w =
     (let heap = max_heap (total_memory e)
      in case str_join '' '' arguments of
           Inl err \<Rightarrow> (0, Inl err, w)
         | Inr joined \<Rightarrow>
             let cmd = BURP_cmd (burp_verbose self) heap joined
             in (case str_join '' '' arguments of
                   Inl err \<Rightarrow> (0, Inl err, w)
                 | Inr joined' \<Rightarrow>
                     Container_run_and_wait_for_exit e cmd
                       (logger_debug (''Executing BURP with arguments '' @ joined') w)))"

definition BURP_execute_with_timeout :: "env \<Rightarrow> BURP \<Rightarrow> pyval list \<Rightarrow> world \<Rightarrow> bool result" where
  "BURP_execute_with_timeout e self arguments =
     timeout TIMEOUT (BURP_execute_with_timeout_body e self arguments)"

text \<open>\<^verbatim>\<open>BURP.execute\<close>: only the decorator's \<^verbatim>\<open>TimeoutError\<close> is caught.\<close>

definition BURP_execute :: "env \<Rightarrow> BURP \<Rightarrow> pyval list \<Rightarrow> world \<Rightarrow> bool result" where
  "BURP_execute e self arguments w =
     (case BURP_execute_with_timeout e self arguments w of
        (Inl DecoratorTimeoutError, w') \<Rightarrow>
          (Inr False, logger_warning (''Timeout ('' @ str_nat TIMEOUT @ ''s) reached for BURP'') w')
      | (r, w') \<Rightarrow> (r, w'))"

text \<open>
  The argument list \<^verbatim>\<open>BURP.execute_mapping\<close> builds. The parameter \<^verbatim>\<open>serialization\<close> is
  not read anywhere in the method; \<^verbatim>\<open>base_iri\<close> is declared \<^verbatim>\<open>Optional[int]\<close> and is
  appended as it is.
\<close>

definition BURP_arguments :: "string \<Rightarrow> string option \<Rightarrow> int option \<Rightarrow> pyval list" where
  "BURP_arguments mapping_file output_file base_iri =
     [PyStr ''-m'', PyStr (os_path_join ''/data/shared/'' mapping_file)]
     @ (case output_file of None \<Rightarrow> []
        | Some out \<Rightarrow> [PyStr ''-o'', PyStr (os_path_join ''/data/shared/'' out)])
     @ (case base_iri of None \<Rightarrow> [] | Some b \<Rightarrow> [PyStr ''-b'', PyInt b])"

definition BURP_execute_mapping ::
  "env \<Rightarrow> BURP \<Rightarrow> string \<Rightarrow> string \<Rightarrow> string option \<Rightarrow> int option \<Rightarrow> world \<Rightarrow> bool result" where
  "BURP_execute_mapping e self mapping_file serialization output_file base_iri w =
     BURP_execute e self (BURP_arguments mapping_file output_file base_iri) w"

section \<open>The Morph-RDB adapter\<close>

record MorphRDB = container +
  morph_data_path :: string
  morph_config_path :: string

text \<open>The parameters of \<^verbatim>\<open>MorphRDB.execute_mapping\<close>; the six credentials default to None.\<close>

record run_request =
  mapping_file :: string
  output_file :: string
  serialization :: string
  rdb_username :: "string option"
  rdb_password :: "string option"
  rdb_host :: "string option"
  rdb_port :: "string option"
  rdb_name :: "string option"
  rdb_type :: "string option"

text \<open>
  \<^verbatim>\<open>MorphRDB._execute_with_timeout\<close> carries no decorator in \<^verbatim>\<open>morphrdb.py\<close>, and the
  module does not import \<^verbatim>\<open>timeout_decorator\<close>: the time the container takes is not
  looked at, and the \<^verbatim>\<open>TimeoutError\<close> that \<^verbatim>\<open>execute\<close> catches is the builtin one.
\<close>

definition MorphRDB_cmd :: "nat \<Rightarrow> string" where
  "MorphRDB_cmd heap =
     ''java -Xmx'' @ str_nat heap @ '' -Xms'' @ str_nat heap @ '' ''
     @ ''-cp .:morph-rdb-dist-3.12.6.jar:dependency/* ''
     @ ''es.upm.fi.dia.oeg.morph.r2rml.rdb.engine.MorphRDBRunner ''
     @ ''/data config.properties''"

definition MorphRDB_execute_with_timeout ::
  "env \<Rightarrow> MorphRDB \<Rightarrow> pyval list \<Rightarrow> world \<Rightarrow> bool result" where
  "MorphRDB_execute_with_timeout e self arguments w =
     (let heap = max_heap (total_memory e);
          cmd = MorphRDB_cmd heap
      in case Container_run_and_wait_for_exit e cmd w of (t, success, w') \<Rightarrow> (success, w'))"

definition MorphRDB_execute :: "env \<Rightarrow> MorphRDB \<Rightarrow> pyval list \<Rightarrow> world \<Rightarrow> bool result" where
  "MorphRDB_execute e self arguments w =
     (case MorphRDB_execute_with_timeout e self arguments w of
        (Inl BuiltinTimeoutError, w') \<Rightarrow>
          (Inr False,
           logger_warning (''Timeout ('' @ str_nat TIMEOUT @ ''s) reached for Morph-RDB'') w')
      | (r, w') \<Rightarrow> (r, w'))"

text \<open>
  Lines 60 to 97 of \<^verbatim>\<open>MorphRDB.execute_mapping\<close>: the translation of the serialization
  format and the section \<^verbatim>\<open>root\<close> of the configuration.
\<close>

definition rdflanguage :: "string \<Rightarrow> error + string" where
  "rdflanguage s =
     (if s = ''nquads'' then Inr ''N-QUADS''
      else if s = ''ntriples'' then Inr ''N-TRIPLE''
      else Inl NotImplementedError)"

definition credentials ::
  "run_request \<Rightarrow> (string \<times> string \<times> string \<times> string \<times> string \<times> string) option" where
  "credentials r =
     (case (rdb_username r, rdb_password r, rdb_host r, rdb_port r, rdb_name r, rdb_type r) of
        (Some u, Some p, Some h, Some port, Some n, Some t) \<Rightarrow> Some (u, p, h, port, n, t)
      | _ \<Rightarrow> None)"

definition database_kind ::
  "string \<Rightarrow> string \<Rightarrow> string \<Rightarrow> string \<Rightarrow> error + (string \<times> string) list" where
  "database_kind t h port n =
     (if t = ''MySQL'' then
        Inr [(''database.driver[0]'', ''com.mysql.jdbc.Driver''),
             (''database.type[0]'', ''mysql''),
             (''database.url[0]'', ''jdbc:mysql://'' @ h @ '':'' @ port @ ''/'' @ n
                                   @ ''?allowPublicKeyRetrieval=true&useSSL=false'')]
      else if t = ''PostgreSQL'' then
        Inr [(''database.driver[0]'', ''org.postgresql.Driver''),
             (''database.type[0]'', ''postgresql''),
             (''database.url[0]'', ''jdbc:postgresql://'' @ h @ '':'' @ port @ ''/'' @ n)]
      else Inl ValueError)"

definition MorphRDB_config :: "run_request \<Rightarrow> error + config_section" where
  "MorphRDB_config r =
     (case rdflanguage (serialization r) of
        Inl err \<Rightarrow> Inl err
      | Inr language \<Rightarrow>
          (case section_set_all
                  [(''mappingdocument.file.path'',
                      os_path_join ''shared'' (os_path_basename (mapping_file r))),
                   (''output.file.path'',
                      os_path_join ''shared'' (os_path_basename (output_file r))),
                   (''output.rdflanguage'', language)] [] of
             Inl err \<Rightarrow> Inl err
           | Inr config \<Rightarrow>
               (case credentials r of
                  None \<Rightarrow> Inr config
                | Some (u, p, h, port, n, t) \<Rightarrow>
                    (case section_set ''database.name[0]'' n config of
                       Inl err \<Rightarrow> Inl err
                     | Inr config1 \<Rightarrow>
                         (case database_kind t h port n of
                            Inl err \<Rightarrow> Inl err
                          | Inr kind \<Rightarrow>
                              section_set_all
                                (kind @ [(''database.user[0]'', u),
                                         (''database.pwd[0]'', p),
                                         (''no_of_database'', ''1'')]) config1)))))"

text \<open>
  Lines 99 to 111: the section is written with its header, read back, and written again
  with every occurrence of the header line taken out.
\<close>

definition config_properties :: "MorphRDB \<Rightarrow> string" where
  "config_properties self =
     os_path_join (os_path_join (morph_data_path self) ''morphrdb'') ''config.properties''"

definition MorphRDB_write_config :: "MorphRDB \<Rightarrow> config_section \<Rightarrow> world \<Rightarrow> unit result" where
  "MorphRDB_write_config self config w =
     (let path = os_path_join (morph_data_path self) ''morphrdb''
      in case os_makedirs path True (os_umask 0 w) of
           (Inl err, w1) \<Rightarrow> (Inl err, w1)
         | (Inr u, w1) \<Rightarrow>
             (let w2 = write_text (os_path_join path ''config.properties'') (config_write config) w1
              in case read_text (os_path_join path ''config.properties'') w2 of
                   Inl err \<Rightarrow> (Inl err, w2)
                 | Inr data \<Rightarrow>
                     (Inr (), write_text (os_path_join path ''config.properties'')
                                (str_replace (''[root]'' @ [LF]) [] data) w2)))"

definition MorphRDB_execute_mapping ::
  "env \<Rightarrow> MorphRDB \<Rightarrow> run_request \<Rightarrow> world \<Rightarrow> bool result" where
  "MorphRDB_execute_mapping e self r w =
     (case MorphRDB_config r of
        Inl err \<Rightarrow> (Inl err, w)
      | Inr config \<Rightarrow>
          (case MorphRDB_write_config self config w of
             (Inl err, w1) \<Rightarrow> (Inl err, w1)
           | (Inr u, w1) \<Rightarrow> MorphRDB_execute e self [] w1))"

text \<open>
  What lines 99 to 111 leave in \<^verbatim>\<open>config.properties\<close> for a section: the text the
  generator wrote, read back in text mode, with the header lines taken out.
\<close>

definition flat_properties :: "config_section \<Rightarrow> string" where
  "flat_properties config =
     str_replace (''[root]'' @ [LF]) [] (universal_newlines (config_write config))"



text \<open>A value the generator accepts is stored as it is.\<close>

definition accepted :: "string \<Rightarrow> bool" where
  "accepted v = (before_set v = Inr v)"



section \<open>Construction of the adapters\<close>

text \<open>
  A volume is the string \<^verbatim>\<open>host:container\<close> the adapters build; it is read at its last
  colon.
\<close>

definition volume_host :: "string \<Rightarrow> string" where
  "volume_host v = rev (drop 1 (dropWhile (\<lambda>c. c \<noteq> CHR '':'') (rev v)))"

definition volume_container :: "string \<Rightarrow> string" where
  "volume_container v = rev (takeWhile (\<lambda>c. c \<noteq> CHR '':'') (rev v))"

definition valid_volume :: "string \<Rightarrow> bool" where
  "valid_volume v =
     (if volume_host v = [] then False
      else if volume_container v = [] then False
      else hd (volume_container v) = CHR ''/'')"

fun ensure_directories :: "string list \<Rightarrow> world \<Rightarrow> unit result" where
  "ensure_directories [] w = (Inr (), w)"
| "ensure_directories (p # ps) w =
     (case os_makedirs p True w of
        (Inl err, w') \<Rightarrow> (Inl ConfigurationError, w')
      | (Inr u, w') \<Rightarrow> ensure_directories ps w')"

text \<open>
  Modelled from the spec: \<^verbatim>\<open>Container.__init__\<close> (\<^verbatim>\<open>bench_executor/container.py\<close>) and
  the logger are not among the sources. The spec's \<^verbatim>\<open>construct(image, name, volumes,
  logger, expect_failure=false)\<close> validates the volumes (host and container paths are
  never empty, the container path starts at an absolute mount point, duplicate container
  paths are rejected), ensures that the host directories exist, and fails with
  \<^verbatim>\<open>ConfigurationError\<close> otherwise. Creating the logger, a sink for messages, leaves the
  directories and files as they are.
\<close>

definition Container_init ::
  "string \<Rightarrow> string \<Rightarrow> string list \<Rightarrow> bool \<Rightarrow> world \<Rightarrow> container result" where
  "Container_init img nm vols expect w =
     (if list_all valid_volume vols then
        (if distinct (map volume_container vols) then
           (case ensure_directories (map volume_host vols) w of
              (Inl err, w') \<Rightarrow> (Inl err, w')
            | (Inr u, w') \<Rightarrow>
                (Inr \<lparr>image_ref = img, tool_name = nm, volumes = vols, expect_failure = expect\<rparr>,
                 w'))
         else (Inl ConfigurationError, w))
      else (Inl ConfigurationError, w))"

definition BURP_VERSION :: string where
  "BURP_VERSION = ''1.0.0''"

definition MorphRDB_VERSION :: string where
  "MorphRDB_VERSION = ''3.12.5''"

text \<open>\<^verbatim>\<open>BURP.__init__(data_path, config_path, directory, verbose, expect_failure)\<close>.\<close>

definition BURP_init ::
  "env \<Rightarrow> string \<Rightarrow> string \<Rightarrow> string \<Rightarrow> bool \<Rightarrow> bool \<Rightarrow> world \<Rightarrow> BURP result" where
  "BURP_init e data_path config_path directory verbose expect w =
     (let dp = abspath e data_path; cp = abspath e config_path
      in case os_makedirs (os_path_join dp ''burp'') True w of
           (Inl err, w1) \<Rightarrow> (Inl err, w1)
         | (Inr u, w1) \<Rightarrow>
             (case Container_init (''kgconstruct/burp:v'' @ BURP_VERSION) ''BURP''
                     [dp @ ''/burp:/data'', dp @ ''/shared:/data/shared''] expect w1 of
                (Inl err, w2) \<Rightarrow> (Inl err, w2)
              | (Inr c, w2) \<Rightarrow>
                  (Inr \<lparr>image_ref = image_ref c, tool_name = tool_name c, volumes = volumes c,
                        expect_failure = expect_failure c, burp_data_path = dp,
                        burp_config_path = cp, burp_verbose = verbose\<rparr>, w2)))"

text \<open>\<^verbatim>\<open>MorphRDB.__init__(data_path, config_path, directory, verbose)\<close>.\<close>

definition MorphRDB_init ::
  "env \<Rightarrow> string \<Rightarrow> string \<Rightarrow> string \<Rightarrow> bool \<Rightarrow> world \<Rightarrow> MorphRDB result" where
  "MorphRDB_init e data_path config_path directory verbose w =
     (let dp = abspath e data_path; cp = abspath e config_path
      in case os_makedirs (os_path_join dp ''morphrdb'') True (os_umask 0 w) of
           (Inl err, w1) \<Rightarrow> (Inl err, w1)
         | (Inr u, w1) \<Rightarrow>
             (case Container_init (''blindreviewing/morph-rdb:v'' @ MorphRDB_VERSION) ''Morph-RDB''
                     [dp @ ''/shared:/data/shared'', dp @ ''/morphrdb:/data''] False w1 of
                (Inl err, w2) \<Rightarrow> (Inl err, w2)
              | (Inr c, w2) \<Rightarrow>
                  (Inr \<lparr>image_ref = image_ref c, tool_name = tool_name c, volumes = volumes c,
                        expect_failure = expect_failure c, morph_data_path = dp,
                        morph_config_path = cp\<rparr>, w2)))"

section \<open>Example inputs\<close>

text \<open>
  A machine with 16 GiB of memory whose container runs every command for \<open>secs\<close>
  seconds and then reports success; an empty world; two adapters over \<^verbatim>\<open>/case\<close>; a
  request for N-Quads without credentials.
\<close>

definition example_env :: "nat \<Rightarrow> env" where
  "example_env secs =
     \<lparr>total_memory = 17179869184, abspath = (\<lambda>p. p),
      run_and_wait_for_exit = (\<lambda>cmd w. \<lparr>elapsed = secs, returns = Inr True\<rparr>)\<rparr>"

definition empty_world :: world where
  "empty_world = \<lparr>dirs = {}, files = Map.empty, umask = 18, launched = [], log = []\<rparr>"

definition example_burp :: BURP where
  "example_burp =
     \<lparr>image_ref = ''kgconstruct/burp:v1.0.0'', tool_name = ''BURP'',
      volumes = [''/case/burp:/data'', ''/case/shared:/data/shared''], expect_failure = False,
      burp_data_path = ''/case'', burp_config_path = ''/config'', burp_verbose = False\<rparr>"

definition example_morphrdb :: MorphRDB where
  "example_morphrdb =
     \<lparr>image_ref = ''blindreviewing/morph-rdb:v3.12.5'', tool_name = ''Morph-RDB'',
      volumes = [''/case/shared:/data/shared'', ''/case/morphrdb:/data''], expect_failure = False,
      morph_data_path = ''/case'', morph_config_path = ''/config''\<rparr>"

definition example_request :: "string \<Rightarrow> string \<Rightarrow> string \<Rightarrow> run_request" where
  "example_request m out ser =
     \<lparr>mapping_file = m, output_file = out, serialization = ser,
      rdb_username = None, rdb_password = None, rdb_host = None, rdb_port = None,
      rdb_name = None, rdb_type = None\<rparr>"




section \<open>Running the engine\<close>

subsection \<open>The argument list of BURP\<close>




subsection \<open>What \<^verbatim>\<open>execute\<close> does\<close>

lemma BURP_execute_Inr:
  assumes "str_join '' '' arguments = Inr joined"
  shows "BURP_execute e self arguments w =
     (let w1 = logger_debug (''Executing BURP with arguments '' @ joined) w;
          cmd = BURP_cmd (burp_verbose self) (max_heap (total_memory e)) joined;
          out = run_and_wait_for_exit e cmd w1;
          w2 = w1\<lparr>launched := launched w1 @ [cmd]\<rparr>
      in if TIMEOUT < elapsed out \<or> returns out = Inl DecoratorTimeoutError
         then (Inr False, logger_warning (''Timeout ('' @ str_nat TIMEOUT @ ''s) reached for BURP'') w2)
         else (returns out, w2))"
  using assms
  by (auto simp: BURP_execute_def BURP_execute_with_timeout_def timeout_def
      BURP_execute_with_timeout_body_def Container_run_and_wait_for_exit_def Let_def
      split: sum.splits error.splits)

lemma str_join_Inl: "str_join sep xs = Inl err \<Longrightarrow> err = TypeError"
  by (induction sep xs rule: str_join.induct) (auto split: sum.splits)

lemma BURP_execute_Inl:
  assumes "str_join '' '' arguments = Inl err"
  shows "BURP_execute e self arguments w = (Inl TypeError, w)"
  using assms str_join_Inl [OF assms]
  by (simp add: BURP_execute_def BURP_execute_with_timeout_def timeout_def
      BURP_execute_with_timeout_body_def Let_def)

lemma BURP_execute_launched:
  assumes "str_join '' '' arguments = Inr joined"
  shows "launched (snd (BURP_execute e self arguments w)) =
     launched w @ [BURP_cmd (burp_verbose self) (max_heap (total_memory e)) joined]"
  by (simp add: BURP_execute_Inr [OF assms] Let_def logger_debug_def logger_warning_def)

lemma MorphRDB_execute_eq:
  "MorphRDB_execute e self arguments w =
     (let cmd = MorphRDB_cmd (max_heap (total_memory e));
          out = run_and_wait_for_exit e cmd w;
          w1 = w\<lparr>launched := launched w @ [cmd]\<rparr>
      in if returns out = Inl BuiltinTimeoutError
         then (Inr False, logger_warning (''Timeout ('' @ str_nat TIMEOUT @ ''s) reached for Morph-RDB'') w1)
         else (returns out, w1))"
  by (auto simp: MorphRDB_execute_def MorphRDB_execute_with_timeout_def
      Container_run_and_wait_for_exit_def Let_def split: sum.splits error.splits)

lemma MorphRDB_execute_launched:
  "launched (snd (MorphRDB_execute e self arguments w)) =
     launched w @ [MorphRDB_cmd (max_heap (total_memory e))]"
  by (simp add: MorphRDB_execute_eq Let_def logger_warning_def)

lemma float_of_int_small: "n < 2 ^ 53 \<Longrightarrow> float_of_int n = n"
  by (simp add: float_of_int_def float_exponent.simps)

lemma max_heap_small: "unat bytes < 2 ^ 53 \<Longrightarrow> max_heap bytes = unat bytes div 2"
  by (simp add: max_heap_def float_of_int_small)

lemma max_heap_example: "max_heap 17179869184 = 8589934592"
  by (simp add: max_heap_def float_of_int_def float_exponent.simps)

lemma str_nat_example: "str_nat 8589934592 = ''8589934592''"
  by (simp add: str_nat.simps digit_def)

lemma BURP_execute_timeout:
  assumes "str_join '' '' arguments = Inr joined"
    and "TIMEOUT < elapsed (run_and_wait_for_exit e
           (BURP_cmd (burp_verbose self) (max_heap (total_memory e)) joined)
           (logger_debug (''Executing BURP with arguments '' @ joined) w))"
  shows "fst (BURP_execute e self arguments w) = Inr False"
    and "log (snd (BURP_execute e self arguments w))
           = log w @ [(Debug, ''Executing BURP with arguments '' @ joined),
                      (Warning, ''Timeout (21600s) reached for BURP'')]"
  using assms(2)
  by (simp_all add: BURP_execute_Inr [OF assms(1)] Let_def logger_debug_def logger_warning_def
      TIMEOUT_def str_nat.simps digit_def)

text \<open>
  C2. A timeout is to be recovered locally in every adapter: \<^verbatim>\<open>execute\<close> catches the
  timeout exception, logs a warning and returns false. \<^verbatim>\<open>BURP.execute\<close> does so
  (\<open>BURP_execute_timeout\<close>). \<^verbatim>\<open>MorphRDB._execute_with_timeout\<close> has no decorator:
  a container that runs for seven hours, longer than the limit of six, and then reports
  success makes \<^verbatim>\<open>MorphRDB.execute\<close> return true, and no warning is logged.
\<close>

theorem MorphRDB_execute_ignores_timeout:
  "TIMEOUT < elapsed (run_and_wait_for_exit (example_env 25200)
                        (MorphRDB_cmd 8589934592) empty_world)
   \<and> MorphRDB_execute (example_env 25200) example_morphrdb [] empty_world
       = (Inr True, empty_world\<lparr>launched := [MorphRDB_cmd 8589934592]\<rparr>)
   \<and> log (snd (MorphRDB_execute (example_env 25200) example_morphrdb [] empty_world)) = []"
  by (simp add: MorphRDB_execute_eq example_env_def TIMEOUT_def max_heap_example empty_world_def)

subsection \<open>Unsupported serialization formats\<close>




lemma MorphRDB_unsupported_format:
  assumes "serialization r \<noteq> ''nquads''" and "serialization r \<noteq> ''ntriples''"
  shows "MorphRDB_execute_mapping e self r w = (Inl NotImplementedError, w)"
  using assms by (simp add: MorphRDB_execute_mapping_def MorphRDB_config_def rdflanguage_def)

text \<open>
  C1. A serialization format outside the supported ones is to be rejected by every adapter
  before a process is launched. \<^verbatim>\<open>MorphRDB.execute_mapping\<close> does so
  (\<open>MorphRDB_unsupported_format\<close>: nothing is written and nothing is launched).
  \<^verbatim>\<open>BURP.execute_mapping\<close>, whose docstring names N-Quads as the supported format, never
  reads its parameter: asked for \<^verbatim>\<open>turtle\<close>, it launches the engine and returns what
  the container reports.
\<close>

theorem BURP_ignores_serialization:
  "BURP_execute_mapping (example_env 60) example_burp ''mapping.ttl'' ''turtle''
       (Some ''out.ttl'') None empty_world
     = (Inr True,
        empty_world
          \<lparr>launched := [''java -Xmx8589934592 -Xms8589934592 -jar burp/burp.jar ''
                         @ ''-m /data/shared/mapping.ttl -o /data/shared/out.ttl''],
           log := [(Debug, ''Executing BURP with arguments ''
                           @ ''-m /data/shared/mapping.ttl -o /data/shared/out.ttl'')]\<rparr>)"
proof -
  have args: "str_join '' '' (BURP_arguments ''mapping.ttl'' (Some ''out.ttl'') None)
                = Inr ''-m /data/shared/mapping.ttl -o /data/shared/out.ttl''"
    by (simp add: BURP_arguments_def os_path_join_def)
  show ?thesis
    unfolding BURP_execute_mapping_def BURP_execute_Inr [OF args]
    by (simp add: example_env_def example_burp_def empty_world_def TIMEOUT_def
        max_heap_example BURP_cmd_def str_nat_example logger_debug_def)
qed

subsection \<open>Database kinds\<close>



subsection \<open>The memory budget\<close>

text \<open>
  C5. In both adapters, in every execution, the heap passed to the engine as \<^verbatim>\<open>-Xmx\<close>
  and as \<^verbatim>\<open>-Xms\<close> is \<^verbatim>\<open>int(total * (1/2))\<close>, half of the total memory: below
  \<open>2\<^sup>5\<^sup>3\<close> bytes, where the conversion to a float is exact, it is the total divided by
  two (\<^verbatim>\<open>int\<close> rounds an odd total's half down), and exactly half of an even total.
\<close>

theorem heap_is_half_of_total_memory:
  "launched (snd (MorphRDB_execute e m arguments w))
     = launched w @ [''java -Xmx'' @ str_nat (max_heap (total_memory e))
                     @ '' -Xms'' @ str_nat (max_heap (total_memory e))
                     @ '' -cp .:morph-rdb-dist-3.12.6.jar:dependency/* ''
                     @ ''es.upm.fi.dia.oeg.morph.r2rml.rdb.engine.MorphRDBRunner ''
                     @ ''/data config.properties'']
   \<and> (str_join '' '' arguments' = Inr joined \<longrightarrow>
        launched (snd (BURP_execute e b arguments' w'))
          = launched w' @ [''java -Xmx'' @ str_nat (max_heap (total_memory e))
                           @ '' -Xms'' @ str_nat (max_heap (total_memory e))
                           @ '' -jar burp/burp.jar''
                           @ (if burp_verbose b then '' -vvvvvvvvvvvvv'' else [])
                           @ '' '' @ joined])
   \<and> (unat (total_memory e) < 2 ^ 53 \<longrightarrow>
        max_heap (total_memory e) = unat (total_memory e) div 2
        \<and> (even (unat (total_memory e)) \<longrightarrow>
             2 * max_heap (total_memory e) = unat (total_memory e)))"
proof -
  have morph: "launched (snd (MorphRDB_execute e m arguments w))
         = launched w @ [MorphRDB_cmd (max_heap (total_memory e))]"
    by (rule MorphRDB_execute_launched)
  have burp: "launched (snd (BURP_execute e b arguments' w'))
         = launched w' @ [BURP_cmd (burp_verbose b) (max_heap (total_memory e)) joined]"
    if "str_join '' '' arguments' = Inr joined"
    using that by (rule BURP_execute_launched)
  have half: "max_heap (total_memory e) = unat (total_memory e) div 2"
    if "unat (total_memory e) < 2 ^ 53"
    using that by (rule max_heap_small)
  show ?thesis
    using morph burp half by (simp add: MorphRDB_cmd_def BURP_cmd_def)
qed

theorem heap_is_half_of_total_memory_witness:
  "launched (snd (MorphRDB_execute (example_env 60) example_morphrdb [] empty_world))
     = [''java -Xmx8589934592 -Xms8589934592 ''
        @ ''-cp .:morph-rdb-dist-3.12.6.jar:dependency/* ''
        @ ''es.upm.fi.dia.oeg.morph.r2rml.rdb.engine.MorphRDBRunner ''
        @ ''/data config.properties'']
   \<and> launched (snd (BURP_execute (example_env 60) example_burp
                      [PyStr ''-m'', PyStr ''/data/shared/mapping.ttl''] empty_world))
     = [''java -Xmx8589934592 -Xms8589934592 -jar burp/burp.jar -m /data/shared/mapping.ttl'']
   \<and> 2 * max_heap (total_memory (example_env 60)) = 17179869184"
  using heap_is_half_of_total_memory [of "example_env 60" example_morphrdb "[]" empty_world
      "[PyStr ''-m'', PyStr ''/data/shared/mapping.ttl'']" "''-m /data/shared/mapping.ttl''"
      example_burp empty_world]
  by (simp add: example_env_def example_burp_def empty_world_def str_nat_example)

section \<open>The configuration file of Morph-RDB\<close>

subsection \<open>Reading back and taking out the header\<close>







subsection \<open>What \<^verbatim>\<open>execute_mapping\<close> writes and launches\<close>

lemma os_makedirs_True:
  "os_makedirs p True w = (Inr (), snd (os_makedirs p True w))"
  "files (snd (os_makedirs p True w)) = files w"
  "launched (snd (os_makedirs p True w)) = launched w"
  "log (snd (os_makedirs p True w)) = log w"
  by (simp_all add: os_makedirs_def)

lemma MorphRDB_write_config_eq:
  "MorphRDB_write_config self config w =
     (Inr (), (snd (os_makedirs (os_path_join (morph_data_path self) ''morphrdb'') True
                      (os_umask 0 w)))
                \<lparr>files := (files w)(config_properties self \<mapsto> flat_properties config)\<rparr>)"
proof -
  let ?p = "os_path_join (morph_data_path self) ''morphrdb''"
  obtain w1 where w1: "os_makedirs ?p True (os_umask 0 w) = (Inr (), w1)"
    and f1: "files w1 = files w"
    using os_makedirs_True(1,2) [of ?p "os_umask 0 w"] by (simp add: os_umask_def)
  show ?thesis
    by (simp add: MorphRDB_write_config_def Let_def w1 f1 write_text_def read_text_def
        config_properties_def flat_properties_def)
qed

lemma MorphRDB_execute_files: "files (snd (MorphRDB_execute e self arguments w)) = files w"
  by (simp add: MorphRDB_execute_eq Let_def logger_warning_def)

lemma MorphRDB_execute_mapping_Inr:
  assumes "MorphRDB_config r = Inr config"
  shows "files (snd (MorphRDB_execute_mapping e self r w)) (config_properties self)
           = Some (flat_properties config)"
    and "launched (snd (MorphRDB_execute_mapping e self r w))
           = launched w @ [MorphRDB_cmd (max_heap (total_memory e))]"
  using assms
  by (simp_all add: MorphRDB_execute_mapping_def MorphRDB_write_config_eq
      MorphRDB_execute_files MorphRDB_execute_launched os_makedirs_True(2-4) os_umask_def)



subsection \<open>The text on disk, option by option\<close>






subsection \<open>Lines that start with a bracket\<close>
















subsection \<open>Missing credentials\<close>

lemma set_str_replace_from: "set (str_replace_from old [] s) \<subseteq> set s"
proof (induction old "[] :: string" s rule: str_replace_from.induct)
  case (1 old)
  then show ?case by simp
next
  case (2 old c cs)
  then show ?case
    using set_drop_subset [of "length old - 1" cs] by auto
qed

lemma set_KEYCRE_sub: "set (KEYCRE_sub s) \<subseteq> set s"
proof (induction s rule: KEYCRE_sub.induct)
  case 1
  then show ?case by simp
next
  case (2 c cs)
  show ?case
  proof (cases "KEYCRE_match (c # cs)")
    case None
    with 2 show ?thesis by auto
  next
    case (Some n)
    with 2 set_drop_subset [of "n - 1" cs] show ?thesis by auto
  qed
qed

lemma accepted_no_percent: "CHR ''%'' \<notin> set v \<Longrightarrow> accepted v"
  using set_KEYCRE_sub [of "str_replace ''%%'' [] v"] set_str_replace_from [of "''%%''" v]
  by (auto simp: accepted_def before_set_def str_replace_def Let_def)


lemma example_config:
  "MorphRDB_config (example_request ''mapping.ttl'' ''out.nq'' ''nquads'')
     = Inr [(''mappingdocument.file.path'', ''shared/mapping.ttl''),
            (''output.file.path'', ''shared/out.nq''),
            (''output.rdflanguage'', ''N-QUADS'')]"
  by (simp add: MorphRDB_config_def example_request_def rdflanguage_def credentials_def
      section_set_def before_set_def str_replace_def KEYCRE_match_def os_path_join_def
      os_path_basename_def)

lemma example_flat:
  "flat_properties [(''mappingdocument.file.path'', ''shared/mapping.ttl''),
            (''output.file.path'', ''shared/out.nq''),
            (''output.rdflanguage'', ''N-QUADS'')]
    = ''mappingdocument.file.path=shared/mapping.ttl'' @ [LF]
      @ ''output.file.path=shared/out.nq'' @ [LF]
      @ ''output.rdflanguage=N-QUADS'' @ [LF, LF]"
  by (simp add: flat_properties_def config_write_def option_line_def str_replace_def)



subsection \<open>Section headers in the file\<close>






subsection \<open>The vocabulary of the engine\<close>




subsection \<open>Determinism of the preparation\<close>

text \<open>
  C7. The artifacts of \<^verbatim>\<open>execute_mapping\<close> depend on the request only. For Morph-RDB the
  content of \<^verbatim>\<open>config.properties\<close> after the call is the same in every world and
  environment, also when the call is repeated on the world the first call left (the file
  is overwritten, nothing is appended), and a request whose section cannot be built fails
  the same way everywhere. For BURP the command launched by the call is the same in any
  two worlds on a machine with the same memory.
\<close>

theorem prepare_is_deterministic:
  "(MorphRDB_config r = Inr config \<longrightarrow>
      files (snd (MorphRDB_execute_mapping e1 m r w1)) (config_properties m)
        = Some (flat_properties config)
      \<and> files (snd (MorphRDB_execute_mapping e2 m r (snd (MorphRDB_execute_mapping e1 m r w1))))
           (config_properties m)
        = Some (flat_properties config))
   \<and> (MorphRDB_config r = Inl err \<longrightarrow>
        MorphRDB_execute_mapping e1 m r w1 = (Inl err, w1))
   \<and> (total_memory e1 = total_memory e2 \<longrightarrow>
        drop (length (launched w1)) (launched (snd (BURP_execute_mapping e1 b mf ser out iri w1)))
        = drop (length (launched w2)) (launched (snd (BURP_execute_mapping e2 b mf ser out iri w2))))"
proof -
  have burp: "drop (length (launched w)) (launched (snd (BURP_execute_mapping e b mf ser out iri w)))
      = (case str_join '' '' (BURP_arguments mf out iri) of
           Inl x \<Rightarrow> []
         | Inr joined \<Rightarrow> [BURP_cmd (burp_verbose b) (max_heap (total_memory e)) joined])"
    for e w
  proof (cases "str_join '' '' (BURP_arguments mf out iri)")
    case (Inl x)
    then show ?thesis
      by (simp add: BURP_execute_mapping_def BURP_execute_Inl [OF Inl])
  next
    case (Inr joined)
    then show ?thesis
      by (simp add: BURP_execute_mapping_def BURP_execute_launched [OF Inr])
  qed
  have same: "drop (length (launched w1))
                (launched (snd (BURP_execute_mapping e1 b mf ser out iri w1)))
            = drop (length (launched w2))
                (launched (snd (BURP_execute_mapping e2 b mf ser out iri w2)))"
    if "total_memory e1 = total_memory e2"
    using that by (simp add: burp split: sum.splits)
  have fails: "MorphRDB_execute_mapping e1 m r w1 = (Inl err, w1)"
    if "MorphRDB_config r = Inl err"
    by (simp add: MorphRDB_execute_mapping_def that)
  show ?thesis
    using same fails by (simp add: MorphRDB_execute_mapping_Inr(1))
qed

theorem prepare_is_deterministic_witness:
  "files (snd (MorphRDB_execute_mapping (example_env 25200) example_morphrdb
                 (example_request ''mapping.ttl'' ''out.nq'' ''nquads'')
                 (snd (MorphRDB_execute_mapping (example_env 60) example_morphrdb
                         (example_request ''mapping.ttl'' ''out.nq'' ''nquads'') empty_world))))
         (config_properties example_morphrdb)
     = Some (''mappingdocument.file.path=shared/mapping.ttl'' @ [LF]
             @ ''output.file.path=shared/out.nq'' @ [LF]
             @ ''output.rdflanguage=N-QUADS'' @ [LF, LF])
   \<and> drop (length (launched empty_world))
        (launched (snd (BURP_execute_mapping (example_env 60) example_burp ''mapping.ttl''
                          ''nquads'' None None empty_world)))
     = drop (length (launched (empty_world\<lparr>launched := [''ls'']\<rparr>)))
        (launched (snd (BURP_execute_mapping (example_env 25200) example_burp ''mapping.ttl''
                          ''nquads'' None None (empty_world\<lparr>launched := [''ls'']\<rparr>))))"
  using prepare_is_deterministic
    [of "example_request ''mapping.ttl'' ''out.nq'' ''nquads''" _ "example_env 60"
        example_morphrdb empty_world "example_env 25200" ValueError example_burp
        "''mapping.ttl''" "''nquads''" None None "empty_world\<lparr>launched := [''ls'']\<rparr>"]
  by (simp add: example_config example_flat example_env_def)

section \<open>Constructing an adapter twice\<close>

lemma os_makedirs_idem:
  assumes "os_makedirs p True w = (r, w')"
  shows "r = Inr ()" and "p \<in> dirs w'" and "dirs w \<subseteq> dirs w'" and "umask w' = umask w"
    and "os_makedirs p True w' = (Inr (), w')"
  using assms by (auto simp: os_makedirs_def split: if_splits)

lemma os_makedirs_present: "p \<in> dirs w \<Longrightarrow> os_makedirs p True w = (Inr (), w)"
  by (simp add: os_makedirs_def)

lemma ensure_directories_present:
  "set ps \<subseteq> dirs w \<Longrightarrow> ensure_directories ps w = (Inr (), w)"
  by (induction ps) (auto simp: os_makedirs_present)

lemma ensure_directories_result:
  "\<exists>w'. ensure_directories ps w = (Inr (), w') \<and> set ps \<subseteq> dirs w' \<and> dirs w \<subseteq> dirs w'
        \<and> umask w' = umask w"
proof (induction ps arbitrary: w)
  case Nil
  then show ?case by simp
next
  case (Cons p ps)
  obtain r w1 where m: "os_makedirs p True w = (r, w1)" by (cases "os_makedirs p True w")
  note facts = os_makedirs_idem [OF m]
  from Cons [of w1] obtain w' where
    "ensure_directories ps w1 = (Inr (), w')" "set ps \<subseteq> dirs w'" "dirs w1 \<subseteq> dirs w'"
    "umask w' = umask w1"
    by blast
  with m facts show ?case by auto
qed

lemma Container_init_idem:
  assumes "Container_init img nm vols expect w = (Inr c, w')"
  shows "Container_init img nm vols expect w' = (Inr c, w')"
    and "dirs w \<subseteq> dirs w'" and "umask w' = umask w" and "volumes c = vols"
proof -
  from ensure_directories_result [of "map volume_host vols" w] obtain w1 where
    e: "ensure_directories (map volume_host vols) w = (Inr (), w1)"
    and s: "set (map volume_host vols) \<subseteq> dirs w1" and d: "dirs w \<subseteq> dirs w1"
    and u: "umask w1 = umask w"
    by blast
  from assms e have ok: "list_all valid_volume vols" "distinct (map volume_container vols)"
    and w': "w' = w1"
    and c: "c = \<lparr>image_ref = img, tool_name = nm, volumes = vols, expect_failure = expect\<rparr>"
    by (auto simp: Container_init_def split: if_splits)
  show "Container_init img nm vols expect w' = (Inr c, w')"
    using ok c w' ensure_directories_present [OF s] by (simp add: Container_init_def)
  show "dirs w \<subseteq> dirs w'" using d w' by simp
  show "umask w' = umask w" using u w' by simp
  show "volumes c = vols" using c by simp
qed

lemma BURP_init_idem:
  assumes "BURP_init e data_path config_path directory verbose expect w = (Inr b, w')"
  shows "BURP_init e data_path config_path directory verbose expect w' = (Inr b, w')"
    and "volumes b = [abspath e data_path @ ''/burp:/data'',
                      abspath e data_path @ ''/shared:/data/shared'']"
    and "os_path_join (abspath e data_path) ''burp'' \<in> dirs w'"
proof -
  let ?p = "os_path_join (abspath e data_path) ''burp''"
  let ?vols = "[abspath e data_path @ ''/burp:/data'', abspath e data_path @ ''/shared:/data/shared'']"
  obtain r w1 where m: "os_makedirs ?p True w = (r, w1)" by (cases "os_makedirs ?p True w")
  note mk = os_makedirs_idem [OF m]
  from assms m mk(1) obtain c where
    ci: "Container_init (''kgconstruct/burp:v'' @ BURP_VERSION) ''BURP'' ?vols expect w1 = (Inr c, w')"
    and b: "b = \<lparr>image_ref = image_ref c, tool_name = tool_name c, volumes = volumes c,
                 expect_failure = expect_failure c, burp_data_path = abspath e data_path,
                 burp_config_path = abspath e config_path, burp_verbose = verbose\<rparr>"
    by (auto simp: BURP_init_def Let_def split: sum.splits prod.splits)
  note cc = Container_init_idem [OF ci]
  have present: "?p \<in> dirs w'" using mk(2) cc(2) by auto
  show "BURP_init e data_path config_path directory verbose expect w' = (Inr b, w')"
    using os_makedirs_present [OF present] cc(1) b by (simp add: BURP_init_def Let_def)
  show "volumes b = ?vols" using b cc(4) by simp
  show "?p \<in> dirs w'" by (rule present)
qed

lemma MorphRDB_init_idem:
  assumes "MorphRDB_init e data_path config_path directory verbose w = (Inr m, w')"
  shows "MorphRDB_init e data_path config_path directory verbose w' = (Inr m, w')"
    and "volumes m = [abspath e data_path @ ''/shared:/data/shared'',
                      abspath e data_path @ ''/morphrdb:/data'']"
    and "os_path_join (abspath e data_path) ''morphrdb'' \<in> dirs w'"
proof -
  let ?p = "os_path_join (abspath e data_path) ''morphrdb''"
  let ?vols = "[abspath e data_path @ ''/shared:/data/shared'', abspath e data_path @ ''/morphrdb:/data'']"
  obtain r w1 where mk: "os_makedirs ?p True (os_umask 0 w) = (r, w1)"
    by (cases "os_makedirs ?p True (os_umask 0 w)")
  note mf = os_makedirs_idem [OF mk]
  from assms mk mf(1) obtain c where
    ci: "Container_init (''blindreviewing/morph-rdb:v'' @ MorphRDB_VERSION) ''Morph-RDB'' ?vols
           False w1 = (Inr c, w')"
    and m: "m = \<lparr>image_ref = image_ref c, tool_name = tool_name c, volumes = volumes c,
                 expect_failure = expect_failure c, morph_data_path = abspath e data_path,
                 morph_config_path = abspath e config_path\<rparr>"
    by (auto simp: MorphRDB_init_def Let_def split: sum.splits prod.splits)
  note cc = Container_init_idem [OF ci]
  have present: "?p \<in> dirs w'" using mf(2) cc(2) by auto
  have "umask w' = 0" using mf(4) cc(3) by (simp add: os_umask_def)
  then have same: "os_umask 0 w' = w'" by (simp add: os_umask_def)
  show "MorphRDB_init e data_path config_path directory verbose w' = (Inr m, w')"
    using os_makedirs_present [OF present] cc(1) m same by (simp add: MorphRDB_init_def Let_def)
  show "volumes m = ?vols" using m cc(4) by simp
  show "?p \<in> dirs w'" by (rule present)
qed

text \<open>
  C9. When the construction of an adapter over a data path succeeds, constructing it again
  in the world the first construction left succeeds as well, gives the same adapter and
  changes nothing: the directory of the engine is there and \<^verbatim>\<open>exist_ok=True\<close> accepts
  it. The two volume bindings the adapter declares are different from each other.
\<close>

theorem construction_is_idempotent:
  "(BURP_init e data_path config_path directory verbose expect w = (Inr b, w1) \<longrightarrow>
      BURP_init e data_path config_path directory verbose expect w1 = (Inr b, w1)
      \<and> distinct (volumes b)
      \<and> os_path_join (burp_data_path b) ''burp'' \<in> dirs w1)
   \<and> (MorphRDB_init e data_path config_path directory verbose w = (Inr m, w2) \<longrightarrow>
      MorphRDB_init e data_path config_path directory verbose w2 = (Inr m, w2)
      \<and> distinct (volumes m)
      \<and> os_path_join (morph_data_path m) ''morphrdb'' \<in> dirs w2)"
proof -
  have burp: "BURP_init e data_path config_path directory verbose expect w1 = (Inr b, w1)
      \<and> distinct (volumes b) \<and> os_path_join (burp_data_path b) ''burp'' \<in> dirs w1"
    if h: "BURP_init e data_path config_path directory verbose expect w = (Inr b, w1)"
  proof -
    have "burp_data_path b = abspath e data_path"
      using h by (auto simp: BURP_init_def Let_def split: sum.splits prod.splits)
    then show ?thesis
      using BURP_init_idem [OF h] by simp
  qed
  have morph: "MorphRDB_init e data_path config_path directory verbose w2 = (Inr m, w2)
      \<and> distinct (volumes m) \<and> os_path_join (morph_data_path m) ''morphrdb'' \<in> dirs w2"
    if h: "MorphRDB_init e data_path config_path directory verbose w = (Inr m, w2)"
  proof -
    have "morph_data_path m = abspath e data_path"
      using h by (auto simp: MorphRDB_init_def Let_def split: sum.splits prod.splits)
    then show ?thesis
      using MorphRDB_init_idem [OF h] by simp
  qed
  show ?thesis using burp morph by blast
qed

lemma example_volumes:
  "volume_host ''/case/burp:/data'' = ''/case/burp''"
  "volume_container ''/case/burp:/data'' = ''/data''"
  "volume_host ''/case/shared:/data/shared'' = ''/case/shared''"
  "volume_container ''/case/shared:/data/shared'' = ''/data/shared''"
  "volume_host ''/case/morphrdb:/data'' = ''/case/morphrdb''"
  "volume_container ''/case/morphrdb:/data'' = ''/data''"
  by (simp_all add: volume_host_def volume_container_def)

lemma example_BURP_init:
  "fst (BURP_init (example_env 60) ''/case'' ''/config'' ''/logs'' False False empty_world)
     = Inr example_burp"
  by (simp add: BURP_init_def Container_init_def example_env_def empty_world_def
      example_burp_def BURP_VERSION_def os_makedirs_def os_path_join_def valid_volume_def
      example_volumes Let_def split: prod.splits)

lemma example_MorphRDB_init:
  "fst (MorphRDB_init (example_env 60) ''/case'' ''/config'' ''/logs'' False empty_world)
     = Inr example_morphrdb"
  by (simp add: MorphRDB_init_def Container_init_def example_env_def empty_world_def
      example_morphrdb_def MorphRDB_VERSION_def os_makedirs_def os_umask_def os_path_join_def
      valid_volume_def example_volumes Let_def split: prod.splits)

theorem construction_is_idempotent_witness:
  "BURP_init (example_env 60) ''/case'' ''/config'' ''/logs'' False False
       (snd (BURP_init (example_env 60) ''/case'' ''/config'' ''/logs'' False False empty_world))
     = (Inr example_burp,
        snd (BURP_init (example_env 60) ''/case'' ''/config'' ''/logs'' False False empty_world))
   \<and> MorphRDB_init (example_env 60) ''/case'' ''/config'' ''/logs'' False
       (snd (MorphRDB_init (example_env 60) ''/case'' ''/config'' ''/logs'' False empty_world))
     = (Inr example_morphrdb,
        snd (MorphRDB_init (example_env 60) ''/case'' ''/config'' ''/logs'' False empty_world))
   \<and> distinct (volumes example_burp) \<and> distinct (volumes example_morphrdb)"
proof -
  have b: "BURP_init (example_env 60) ''/case'' ''/config'' ''/logs'' False False empty_world
      = (Inr example_burp,
         snd (BURP_init (example_env 60) ''/case'' ''/config'' ''/logs'' False False empty_world))"
    using example_BURP_init by (simp add: prod_eq_iff)
  have m: "MorphRDB_init (example_env 60) ''/case'' ''/config'' ''/logs'' False empty_world
      = (Inr example_morphrdb,
         snd (MorphRDB_init (example_env 60) ''/case'' ''/config'' ''/logs'' False empty_world))"
    using example_MorphRDB_init by (simp add: prod_eq_iff)
  show ?thesis
    using construction_is_idempotent
      [of "example_env 60" "''/case''" "''/config''" "''/logs''" False False empty_world
          example_burp
          "snd (BURP_init (example_env 60) ''/case'' ''/config'' ''/logs'' False False empty_world)"
          example_morphrdb
          "snd (MorphRDB_init (example_env 60) ''/case'' ''/config'' ''/logs'' False empty_world)"]
      b m
    by blast
qed

end
